theory Spec2Isabelle
  imports Main
begin

section \<open>Go library functions used by the sources\<close>

text \<open>
  Go strings are byte sequences; they are modelled as \<open>string\<close> (a list of 8-bit
  characters). Every separator the sources pass to \<open>strings.Split\<close> and
  \<open>strings.Contains\<close> is a one-byte literal (\<open>"@"\<close>, \<open>";"\<close>, \<open>"#"\<close>, \<open>":"\<close>), so the
  separator is a \<open>char\<close> here.
\<close>

text \<open>
  \<open>strings.Split(s, sep)\<close>: scans \<open>s\<close> from the left, closing the current token at each
  separator; the token after the last separator (possibly empty) is always emitted, so
  the result is never empty and index 0 is always in range.
\<close>

fun genSplit :: "char \<Rightarrow> string \<Rightarrow> string \<Rightarrow> string list" where
  "genSplit sep cur [] = [cur]"
| "genSplit sep cur (c # cs) =
     (if c = sep then cur # genSplit sep [] cs else genSplit sep (cur @ [c]) cs)"

definition Split :: "string \<Rightarrow> char \<Rightarrow> string list" where
  "Split s sep = genSplit sep [] s"

text \<open>\<open>strings.Join\<close>, used only to state what \<open>Split\<close> computes.\<close>

fun Join :: "string list \<Rightarrow> char \<Rightarrow> string" where
  "Join [] sep = []"
| "Join [t] sep = t"
| "Join (t # u # ts) sep = t @ sep # Join (u # ts) sep"

definition Contains :: "string \<Rightarrow> char \<Rightarrow> bool" where
  "Contains s c = (c \<in> set s)"

definition HasPrefix :: "string \<Rightarrow> string \<Rightarrow> bool" where
  "HasPrefix s pre = (length pre \<le> length s \<and> take (length pre) s = pre)"

text \<open>
  \<open>strings.EqualFold\<close> compares under Unicode simple case folding. The only call in the
  sources compares against the literal \<open>"Leader"\<close>, whose letters fold with their ASCII
  counterparts only, so folding the ASCII letters is exact for that call.
\<close>

definition toLowerASCII :: "char \<Rightarrow> char" where
  "toLowerASCII c =
     (case map_of (zip ''ABCDEFGHIJKLMNOPQRSTUVWXYZ'' ''abcdefghijklmnopqrstuvwxyz'') c of
        Some l \<Rightarrow> l
      | None \<Rightarrow> c)"

definition EqualFold :: "string \<Rightarrow> string \<Rightarrow> bool" where
  "EqualFold s t = (map toLowerASCII s = map toLowerASCII t)"

text \<open>
  \<open>strconv.Atoi\<close>: an optional sign, then one or more decimal digits, and the value must
  fit Go's \<open>int\<close> (64 bits on the platforms the agent runs on). \<open>None\<close> stands for a
  non-nil error; the sources never use the value returned next to an error.
\<close>

definition digit :: "char \<Rightarrow> nat option" where
  "digit c =
     (if (48::nat) \<le> of_char c \<and> of_char c \<le> (57::nat) then Some (of_char c - 48) else None)"

fun parse_digits :: "nat \<Rightarrow> string \<Rightarrow> nat option" where
  "parse_digits acc [] = Some acc"
| "parse_digits acc (c # cs) =
     (case digit c of None \<Rightarrow> None | Some d \<Rightarrow> parse_digits (10 * acc + d) cs)"

definition Atoi :: "string \<Rightarrow> int option" where
  "Atoi s =
     (let (neg, body) =
            (case s of
               [] \<Rightarrow> (False, [])
             | c # r \<Rightarrow> if c = CHR ''-'' then (True, r)
                        else if c = CHR ''+'' then (False, r) else (False, s))
      in if body = [] then None
         else (case parse_digits 0 body of
                 None \<Rightarrow> None
               | Some n \<Rightarrow>
                   (let v = (if neg then - int n else int n)
                    in if - (2 ^ 63) \<le> v \<and> v \<le> 2 ^ 63 - 1 then Some v else None)))"

text \<open>
  A Go \<open>map[string]string\<close> is an association list; indexing a missing key yields the
  zero value \<open>""\<close>.
\<close>

type_synonym strmap = "(string \<times> string) list"

definition index_map :: "strmap \<Rightarrow> string \<Rightarrow> string" where
  "index_map m k = (case map_of m k of None \<Rightarrow> [] | Some v \<Rightarrow> v)"

text \<open>Run-time panics of the Go code are values of the model.\<close>

datatype panic = IndexOutOfRange nat nat | NilDereference

text \<open>
  \<open>make([]T, 0, cap)\<close>: a slice of length 0; the capacity reserves memory and does not
  widen the index range.
\<close>

definition make_empty :: "nat \<Rightarrow> 'a list" where
  "make_empty cap = []"

text \<open>\<open>xs[i] = v\<close> on a slice: a write at or beyond the length panics.\<close>

definition assign_index :: "'a list \<Rightarrow> nat \<Rightarrow> 'a \<Rightarrow> panic + 'a list" where
  "assign_index xs i v =
     (if i < length xs then Inr (xs[i := v]) else Inl (IndexOutOfRange i (length xs)))"

text \<open>
  \<open>for i, x := range src { dst[i] = f(x) }\<close>, the shape of both construction loops of the
  configuration store; \<open>i\<close> is the index of the head of the remaining input.
\<close>

fun range_assign :: "('a \<Rightarrow> 'b) \<Rightarrow> 'b list \<Rightarrow> nat \<Rightarrow> 'a list \<Rightarrow> panic + 'b list" where
  "range_assign f dst i [] = Inr dst"
| "range_assign f dst i (x # xs) =
     (case assign_index dst i (f x) of
        Inl p \<Rightarrow> Inl p
      | Inr dst' \<Rightarrow> range_assign f dst' (Suc i) xs)"

text \<open>
  Go errors: one raised by a collaborator outside the sources, \<open>errors.New\<close>, and
  \<open>errors.Wrap\<close>/\<open>errors.Wrapf\<close> with the message already formatted.
\<close>

datatype error = External string | New string | Wrap error string

section \<open>Data model\<close>

text \<open>
  Modelled from the spec: the declarations of \<open>Member\<close>, \<open>Leader\<close>, \<open>Failover\<close> and
  \<open>Cluster\<close>, and the constructors \<open>newMember\<close>, \<open>newLeader\<close> and \<open>newFailover\<close>, are not
  under src/. The spec gives a member a name, an observed role and an opaque metadata
  map; the call \<open>newMember("-1", name, data)\<close> in the sources adds an index. A leader is
  a version token with the claimed leader's member entry; a failover is a version, the
  leader failed away from, a candidate and a time. The fields of \<open>Cluster\<close> are those of
  the struct literal that ends \<open>loadClusterFromKubernetes\<close>; the cluster configuration
  is a type parameter.
\<close>

record Member =
  Index :: string
  Name :: string
  observedRole :: string
  Data :: strmap

record Leader =
  leader_version :: string
  leader_member :: Member

record Failover =
  failover_version :: string
  failover_leader :: string
  failover_candidate :: string
  failover_scheduledAt :: int

record 'cfg Cluster =
  SysID :: string
  Config :: "'cfg option"
  Leader :: "Leader option"
  Members :: "Member list"
  FailOver :: "Failover option"
  Extra :: strmap

definition newMember :: "string \<Rightarrow> string \<Rightarrow> strmap \<Rightarrow> Member" where
  "newMember index name data = \<lparr>Index = index, Name = name, observedRole = [], Data = data\<rparr>"

definition newLeader :: "string \<Rightarrow> Member \<Rightarrow> Leader" where
  "newLeader version member = \<lparr>leader_version = version, leader_member = member\<rparr>"

definition newFailover :: "string \<Rightarrow> string \<Rightarrow> string \<Rightarrow> int \<Rightarrow> Failover" where
  "newFailover version ldr candidate scheduledAt =
     \<lparr>failover_version = version, failover_leader = ldr,
      failover_candidate = candidate, failover_scheduledAt = scheduledAt\<rparr>"

section \<open>The configuration store\<close>

text \<open>
  The part of a Kubernetes object the store reads: its resource version and its
  annotations (config maps and the cluster object alike).
\<close>

record ObjectMeta =
  ResourceVersion :: string
  Annotations :: strmap

text \<open>
  The annotation keys are package constants declared outside src/; they are a parameter
  of the model. (\<open>SysID\<close> is also a field of \<open>Cluster\<close>, hence the suffix.)
\<close>

record Keys =
  SysID_key :: string
  TTL :: string
  AcquireTime :: string
  RenewTime :: string
  LeaderName :: string
  Candidate :: string
  ScheduledAt :: string

record LeaderRecord =
  acquireTime :: int
  leader :: string
  renewTime :: int
  ttl :: int

definition atoi_or_zero :: "string \<Rightarrow> int" where
  "atoi_or_zero s = (case Atoi s of None \<Rightarrow> 0 | Some v \<Rightarrow> v)"

definition newLeaderRecord :: "Keys \<Rightarrow> strmap \<Rightarrow> LeaderRecord" where
  "newLeaderRecord K data =
     (let ttl' = atoi_or_zero (index_map data (TTL K));
          acquireTime' = atoi_or_zero (index_map data (AcquireTime K));
          renewTime' = atoi_or_zero (index_map data (RenewTime K))
      in \<lparr>acquireTime = acquireTime', leader = index_map data (LeaderName K),
          renewTime = renewTime', ttl = ttl'\<rparr>)"

text \<open>The two fields of the store that \<open>loadClusterFromKubernetes\<close> writes.\<close>

record ConfigurationStore =
  leaderObservedRecord :: "LeaderRecord option"
  LeaderObservedTime :: int

text \<open>
  Lines 490--493 of \<open>GetClusterFromKubernetes\<close>: the listed pods are copied into a slice
  made with length 0.
\<close>

definition collect_pods :: "'pod list \<Rightarrow> panic + 'pod list" where
  "collect_pods items = range_assign (\<lambda>pod. pod) (make_empty (length items)) 0 items"

text \<open>
  Lines 534--540: the block that decodes the failover record. It is entered when the
  local variable \<open>failover\<close> is non-nil.
\<close>

definition decode_failover ::
  "Keys \<Rightarrow> ObjectMeta option \<Rightarrow> Failover option \<Rightarrow> panic + Failover option" where
  "decode_failover K failoverConfig failover =
     (if failover \<noteq> None then
        (case failoverConfig of
           None \<Rightarrow> Inl NilDereference
         | Some fc \<Rightarrow>
             (let annotations = Annotations fc in
              case Atoi (index_map annotations (ScheduledAt K)) of
                Some scheduledAt \<Rightarrow>
                  Inr (Some (newFailover (ResourceVersion fc) (index_map annotations (LeaderName K))
                               (index_map annotations (Candidate K)) scheduledAt))
              | None \<Rightarrow> Inr failover))
      else Inr failover)"

text \<open>
  \<open>loadClusterFromKubernetes\<close>. The helpers \<open>getClusterConfigFromConfigMap\<close> and
  \<open>getMemberFromPod\<close> are declared outside src/ and are parameters, as is the reading
  \<open>now\<close> of \<open>time.Now().Unix()\<close>. Nil-able pointer arguments are options. The result is
  the snapshot or the panic that ends the call, with the store as the call leaves it.
\<close>

definition loadClusterFromKubernetes ::
  "Keys \<Rightarrow> (ObjectMeta \<Rightarrow> 'cfg) \<Rightarrow> ('pod \<Rightarrow> Member) \<Rightarrow> int \<Rightarrow> ConfigurationStore \<Rightarrow>
   ObjectMeta option \<Rightarrow> ObjectMeta option \<Rightarrow> 'pod list \<Rightarrow> ObjectMeta option \<Rightarrow> strmap \<Rightarrow>
   (panic + 'cfg Cluster) \<times> ConfigurationStore" where
  "loadClusterFromKubernetes K getClusterConfigFromConfigMap getMemberFromPod now cs
       config failoverConfig pods clusterObj extra =
     (let sysID = (case config of None \<Rightarrow> [] | Some c \<Rightarrow> index_map (Annotations c) (SysID_key K));
          clusterConfig = (case config of None \<Rightarrow> None
                           | Some c \<Rightarrow> Some (getClusterConfigFromConfigMap c));
          failover = None;
          cs' = (case clusterObj of
                   None \<Rightarrow> cs
                 | Some obj \<Rightarrow>
                     cs\<lparr>leaderObservedRecord := Some (newLeaderRecord K (Annotations obj)),
                        LeaderObservedTime := now\<rparr>);
          ldr = (case clusterObj of
                   None \<Rightarrow> None
                 | Some obj \<Rightarrow>
                     Some (newLeader (ResourceVersion obj)
                             (newMember ''-1'' (index_map (Annotations obj) (LeaderName K)) [])))
      in case range_assign getMemberFromPod (make_empty (length pods)) 0 pods of
           Inl p \<Rightarrow> (Inl p, cs')
         | Inr members \<Rightarrow>
             (case decode_failover K failoverConfig failover of
                Inl p \<Rightarrow> (Inl p, cs')
              | Inr failover' \<Rightarrow>
                  (Inr \<lparr>SysID = sysID, Config = clusterConfig, Leader = ldr,
                        Members = members, FailOver = failover', Extra = extra\<rparr>, cs')))"

section \<open>The engine manager\<close>

text \<open>
  Modelled from the spec: \<open>mysql.RowMap\<close>, its accessor \<open>GetString\<close> and
  \<open>mysql.QueryRowsMap\<close> are not under src/. A row of the engine's global-status view maps
  column names to cell texts; \<open>GetString\<close> reads a column and yields \<open>""\<close> for a column
  the row lacks; \<open>len\<close> counts the row's columns.
\<close>

type_synonym RowMap = strmap

definition GetString :: "RowMap \<Rightarrow> string \<Rightarrow> string" where
  "GetString rMap key = index_map rMap key"

definition len_map :: "RowMap \<Rightarrow> nat" where
  "len_map rMap = length (remdups (map fst rMap))"

definition Role :: string where
  "Role = ''ROLE''"

definition CurrentLeader :: string where
  "CurrentLeader = ''CURRENT_LEADER''"

text \<open>The constant \<open>Leader\<close> of the package (the name is taken by the field of \<open>Cluster\<close>).\<close>

definition Leader_role :: string where
  "Leader_role = ''Leader''"

text \<open>
  Every interaction with a collaborator outside the sources is recorded, in order, so
  that what an operation issued can be read off afterwards.
\<close>

datatype 'db call =
    GetReplicaRoleCall
  | GetLeaderConnCall
  | IsMemberHealthyCall string
  | QueryRowCall 'db string
  | QueryRowsMapCall 'db string
  | ExecCall 'db string

fun is_exec :: "'db call \<Rightarrow> bool" where
  "is_exec (ExecCall db stmt) = True"
| "is_exec c = False"

text \<open>
  The embedded \<open>mysql.Manager\<close>, which is not under src/: its fields \<open>DB\<close> and
  \<open>CurrentMemberName\<close>, and the methods and driver calls the sources use, as parameters.
  Each interaction reads and may change the state \<open>'w\<close> of everything outside the process
  (engine, network, clock). \<open>QueryRowScan\<close> is \<open>QueryRowContext(..).Scan(&clusterID,
  &clusterInfo)\<close>: it yields the error, if any, and the two destinations as \<open>Scan\<close>
  leaves them. They start at the zero value \<open>""\<close>; a \<open>Scan\<close> that fails before it
  converts the row leaves them there, one that fails when it closes the rows has
  already written them. \<open>QueryRowsMap\<close> yields the rows handed to the callback and the
  error it ends with, if any; the one callback in the sources never returns an error
  itself.
\<close>

record ('w, 'db, 'cfg) Manager =
  DB :: 'db
  CurrentMemberName :: string
  GetLeaderMember :: "'cfg Cluster option \<Rightarrow> Member option"
  GetLeaderConn :: "'cfg Cluster option \<Rightarrow> 'w \<Rightarrow> (error + 'db) \<times> 'w"
  GetReplicaRole :: "'cfg Cluster option \<Rightarrow> 'w \<Rightarrow> (error + string) \<times> 'w"
  IsMemberHealthy :: "'cfg Cluster option \<Rightarrow> Member \<Rightarrow> 'w \<Rightarrow> bool \<times> 'w"
  QueryRowScan :: "'db \<Rightarrow> string \<Rightarrow> 'w \<Rightarrow> (error option \<times> string \<times> string) \<times> 'w"
  QueryRowsMap :: "'db \<Rightarrow> string \<Rightarrow> 'w \<Rightarrow> (RowMap list \<times> error option) \<times> 'w"
  Exec :: "'db \<Rightarrow> string \<Rightarrow> 'w \<Rightarrow> (error + unit) \<times> 'w"

text \<open>The state threaded through the operations: the outside world and the calls so far.\<close>

type_synonym ('w, 'db) state = "'w \<times> 'db call list"

definition perform ::
  "'db call \<Rightarrow> ('w \<Rightarrow> 'a \<times> 'w) \<Rightarrow> ('w, 'db) state \<Rightarrow> 'a \<times> ('w, 'db) state" where
  "perform c f \<sigma> = (case f (fst \<sigma>) of (r, w') \<Rightarrow> (r, (w', snd \<sigma> @ [c])))"

text \<open>
  The operations. A Go result \<open>(bool, error)\<close> is a pair whose second component is
  \<open>None\<close> for nil; a result \<open>error\<close> alone is an \<open>error option\<close>. Log lines are not modelled.
\<close>

definition IsLeader ::
  "('w, 'db, 'cfg) Manager \<Rightarrow> 'cfg Cluster option \<Rightarrow> ('w, 'db) state \<Rightarrow>
   (bool \<times> error option) \<times> ('w, 'db) state" where
  "IsLeader mgr cluster \<sigma> =
     (case perform GetReplicaRoleCall (GetReplicaRole mgr cluster) \<sigma> of
        (Inl err, \<sigma>') \<Rightarrow> ((False, Some err), \<sigma>')
      | (Inr role, \<sigma>') \<Rightarrow>
          if EqualFold role Leader_role then ((True, None), \<sigma>') else ((False, None), \<sigma>'))"

definition IsLeaderMember ::
  "('w, 'db, 'cfg) Manager \<Rightarrow> 'cfg Cluster option \<Rightarrow> Member option \<Rightarrow> bool \<times> error option" where
  "IsLeaderMember mgr cluster member =
     (case member of
        None \<Rightarrow> (False, None)
      | Some m \<Rightarrow>
          (case GetLeaderMember mgr cluster of
             None \<Rightarrow> (False, None)
           | Some leaderMember \<Rightarrow>
               if Name leaderMember \<noteq> Name m then (False, None) else (True, None)))"

definition consensus_info_sql :: string where
  "consensus_info_sql = ''select cluster_id, cluster_info from mysql.consensus_info''"

text \<open>
  \<open>GetClusterInfo\<close> returns early, with \<open>""\<close>, only when the leader connection does not
  resolve. An error of the query is logged and \<open>clusterInfo\<close> is returned as it stands.
\<close>

definition GetClusterInfo ::
  "('w, 'db, 'cfg) Manager \<Rightarrow> 'cfg Cluster option \<Rightarrow> ('w, 'db) state \<Rightarrow>
   string \<times> ('w, 'db) state" where
  "GetClusterInfo mgr cluster \<sigma> =
     (case (case cluster of
              Some c \<Rightarrow> perform GetLeaderConnCall (GetLeaderConn mgr cluster) \<sigma>
            | None \<Rightarrow> (Inr (DB mgr), \<sigma>)) of
        (Inl err, \<sigma>1) \<Rightarrow> ([], \<sigma>1)
      | (Inr db, \<sigma>1) \<Rightarrow>
          (case perform (QueryRowCall db consensus_info_sql)
                  (QueryRowScan mgr db consensus_info_sql) \<sigma>1 of
             ((err, clusterID, clusterInfo), \<sigma>2) \<Rightarrow> (clusterInfo, \<sigma>2)))"

text \<open>The loop of \<open>GetMemberAddrs\<close> over the \<open>;\<close>-separated tokens.\<close>

fun range_addrs :: "string list \<Rightarrow> string list \<Rightarrow> string list" where
  "range_addrs addrs [] = addrs"
| "range_addrs addrs (addr # rest) =
     (if \<not> Contains addr CHR '':'' then range_addrs addrs rest
      else range_addrs (addrs @ [Split addr CHR ''#'' ! 0]) rest)"

definition GetMemberAddrs ::
  "('w, 'db, 'cfg) Manager \<Rightarrow> 'cfg Cluster option \<Rightarrow> ('w, 'db) state \<Rightarrow>
   string list \<times> ('w, 'db) state" where
  "GetMemberAddrs mgr cluster \<sigma> =
     (case GetClusterInfo mgr cluster \<sigma> of
        (clusterInfo, \<sigma>') \<Rightarrow>
          (let clusterInfo' = Split clusterInfo CHR ''@'' ! 0
           in (range_addrs (make_empty 3) (Split clusterInfo' CHR '';''), \<sigma>')))"

fun first_with_prefix :: "string \<Rightarrow> string list \<Rightarrow> string" where
  "first_with_prefix memberName [] = []"
| "first_with_prefix memberName (addr # rest) =
     (if HasPrefix addr memberName then addr else first_with_prefix memberName rest)"

definition GetAddrWithMemberName ::
  "('w, 'db, 'cfg) Manager \<Rightarrow> 'cfg Cluster option \<Rightarrow> string \<Rightarrow> ('w, 'db) state \<Rightarrow>
   string \<times> ('w, 'db) state" where
  "GetAddrWithMemberName mgr cluster memberName \<sigma> =
     (case GetMemberAddrs mgr cluster \<sigma> of
        (addrs, \<sigma>') \<Rightarrow> (first_with_prefix memberName addrs, \<sigma>'))"

definition leave_sql :: "string \<Rightarrow> string" where
  "leave_sql addr =
     ''call dbms_consensus.downgrade_follower('' @ [CHR 0x27] @ addr @ [CHR 0x27] @ '');'' @
     ''call dbms_consensus.drop_learner('' @ [CHR 0x27] @ addr @ [CHR 0x27] @ '');''"

definition LeaveMemberFromCluster ::
  "('w, 'db, 'cfg) Manager \<Rightarrow> 'cfg Cluster option \<Rightarrow> string \<Rightarrow> ('w, 'db) state \<Rightarrow>
   error option \<times> ('w, 'db) state" where
  "LeaveMemberFromCluster mgr cluster memberName \<sigma> =
     (case perform GetLeaderConnCall (GetLeaderConn mgr cluster) \<sigma> of
        (Inl err, \<sigma>1) \<Rightarrow> (Some err, \<sigma>1)
      | (Inr db, \<sigma>1) \<Rightarrow>
          (case GetAddrWithMemberName mgr cluster memberName \<sigma>1 of
             (addr, \<sigma>2) \<Rightarrow>
               if addr = [] then (None, \<sigma>2)
               else (let sql = leave_sql addr in
                     case perform (ExecCall db sql) (Exec mgr db sql) \<sigma>2 of
                       (Inl err, \<sigma>3) \<Rightarrow> (Some (Wrap err (''error executing '' @ sql)), \<sigma>3)
                     | (Inr resp, \<sigma>3) \<Rightarrow> (None, \<sigma>3))))"

definition global_status_sql :: string where
  "global_status_sql = ''select * from information_schema.wesql_cluster_global;''"

text \<open>The callback of \<open>IsClusterHealthy\<close>, applied to the rows in order.\<close>

fun scan_rows :: "RowMap \<Rightarrow> RowMap list \<Rightarrow> RowMap" where
  "scan_rows leaderRecord [] = leaderRecord"
| "scan_rows leaderRecord (rMap # rest) =
     (if GetString rMap Role = Leader_role then scan_rows rMap rest
      else scan_rows leaderRecord rest)"

definition IsClusterHealthy ::
  "('w, 'db, 'cfg) Manager \<Rightarrow> 'cfg Cluster option \<Rightarrow> ('w, 'db) state \<Rightarrow>
   bool \<times> ('w, 'db) state" where
  "IsClusterHealthy mgr cluster \<sigma> =
     (case perform GetLeaderConnCall (GetLeaderConn mgr cluster) \<sigma> of
        (Inl err, \<sigma>1) \<Rightarrow> (False, \<sigma>1)
      | (Inr db, \<sigma>1) \<Rightarrow>
          (case perform (QueryRowsMapCall db global_status_sql)
                  (QueryRowsMap mgr db global_status_sql) \<sigma>1 of
             ((rows, err), \<sigma>2) \<Rightarrow>
               (let leaderRecord = scan_rows [] rows in
                case err of
                  Some e \<Rightarrow> (False, \<sigma>2)
                | None \<Rightarrow> if len_map leaderRecord > 0 then (True, \<sigma>2) else (False, \<sigma>2))))"

definition IsClusterInitialized ::
  "('w, 'db, 'cfg) Manager \<Rightarrow> 'cfg Cluster option \<Rightarrow> ('w, 'db) state \<Rightarrow>
   (bool \<times> error option) \<times> ('w, 'db) state" where
  "IsClusterInitialized mgr cluster \<sigma> =
     (case GetClusterInfo mgr None \<sigma> of
        (clusterInfo, \<sigma>') \<Rightarrow>
          if clusterInfo \<noteq> [] then ((True, None), \<sigma>') else ((False, None), \<sigma>'))"

definition change_leader_sql :: "string \<Rightarrow> string" where
  "change_leader_sql addr =
     ''call dbms_consensus.change_leader('' @ [CHR 0x27] @ addr @ [CHR 0x27] @ '');''"

definition Promote ::
  "('w, 'db, 'cfg) Manager \<Rightarrow> 'cfg Cluster option \<Rightarrow> ('w, 'db) state \<Rightarrow>
   error option \<times> ('w, 'db) state" where
  "Promote mgr cluster \<sigma> =
     (case IsLeader mgr None \<sigma> of
        ((isLeader, ignored), \<sigma>0) \<Rightarrow>
          if isLeader then (None, \<sigma>0)
          else (case perform GetLeaderConnCall (GetLeaderConn mgr cluster) \<sigma>0 of
                  (Inl err, \<sigma>1) \<Rightarrow> (Some (Wrap err ''Get leader conn failed''), \<sigma>1)
                | (Inr db, \<sigma>1) \<Rightarrow>
                    (case GetAddrWithMemberName mgr cluster (CurrentMemberName mgr) \<sigma>1 of
                       (addr, \<sigma>2) \<Rightarrow>
                         if addr = [] then
                           (Some (New (''get current member'' @ [CHR 0x27] @ ''s addr failed'')), \<sigma>2)
                         else (case perform (ExecCall db (change_leader_sql addr))
                                      (Exec mgr db (change_leader_sql addr)) \<sigma>2 of
                                 (Inl err, \<sigma>3) \<Rightarrow> (Some err, \<sigma>3)
                               | (Inr resp, \<sigma>3) \<Rightarrow> (None, \<sigma>3)))))"

text \<open>
  \<open>HasOtherHealthyMembers\<close> returns pointers to its range variable \<open>member\<close>, so the
  members its caller sees depend on where that variable lives. The cells that hold
  \<open>member\<close> are kept in an explicit store (a list, an address being an index). Which
  cell an iteration uses is fixed by the language version of the module, which is
  declared outside src/ and is a parameter: up to Go 1.21 one variable serves the whole
  loop and each iteration overwrites it (\<open>PerLoop\<close>); from Go 1.22 each iteration has a
  variable of its own (\<open>PerIteration\<close>). A module that declares no version is compiled
  with the earlier rule.
\<close>

datatype range_var = PerLoop | PerIteration

definition zero_Member :: Member where
  "zero_Member = \<lparr>Index = [], Name = [], observedRole = [], Data = []\<rparr>"

fun range_members ::
  "('w, 'db, 'cfg) Manager \<Rightarrow> 'cfg Cluster \<Rightarrow> string \<Rightarrow> range_var \<Rightarrow> nat \<Rightarrow> Member list \<Rightarrow>
   nat list \<Rightarrow> Member list \<Rightarrow> ('w, 'db) state \<Rightarrow> (nat list \<times> Member list) \<times> ('w, 'db) state" where
  "range_members mgr cluster leaderName rv a [] members store \<sigma> = ((members, store), \<sigma>)"
| "range_members mgr cluster leaderName rv a (m # rest) members store \<sigma> =
     (case (case rv of
              PerLoop \<Rightarrow> (a, store[a := m])
            | PerIteration \<Rightarrow> (length store, store @ [m])) of
        (a', store') \<Rightarrow>
          if Name (store' ! a') = leaderName
          then range_members mgr cluster leaderName rv a' rest members store' \<sigma>
          else (case perform (IsMemberHealthyCall (Name (store' ! a')))
                       (IsMemberHealthy mgr (Some cluster) (store' ! a')) \<sigma> of
                  (healthy, \<sigma>') \<Rightarrow>
                    if \<not> healthy
                    then range_members mgr cluster leaderName rv a' rest members store' \<sigma>'
                    else range_members mgr cluster leaderName rv a' rest (members @ [a']) store' \<sigma>'))"

text \<open>
  The result is the slice of pointers together with the store they point into. The
  snapshot is dereferenced by the loop header, so it is not nil here.
\<close>

definition HasOtherHealthyMembers ::
  "('w, 'db, 'cfg) Manager \<Rightarrow> range_var \<Rightarrow> 'cfg Cluster \<Rightarrow> string \<Rightarrow> ('w, 'db) state \<Rightarrow>
   (nat list \<times> Member list) \<times> ('w, 'db) state" where
  "HasOtherHealthyMembers mgr rv cluster leaderName \<sigma> =
     (case rv of
        PerLoop \<Rightarrow> range_members mgr cluster leaderName rv 0 (Members cluster) [] [zero_Member] \<sigma>
      | PerIteration \<Rightarrow> range_members mgr cluster leaderName rv 0 (Members cluster) [] [] \<sigma>)"

text \<open>The members a caller reads through the returned pointers.\<close>

definition pointees :: "nat list \<times> Member list \<Rightarrow> Member list" where
  "pointees r = map (\<lambda>a. snd r ! a) (fst r)"

section \<open>Scenarios\<close>

text \<open>
  Modelled from the spec: \<open>GetLeaderMember\<close> of the embedded manager is not under src/.
  The spec reads the leader off the snapshot: the member entry of its \<open>Leader\<close>, none
  when the snapshot or its leader is absent.
\<close>

definition snapshot_leader :: "'cfg Cluster option \<Rightarrow> Member option" where
  "snapshot_leader cluster =
     (case cluster of
        None \<Rightarrow> None
      | Some c \<Rightarrow> (case Leader c of None \<Rightarrow> None | Some l \<Rightarrow> Some (leader_member l)))"

text \<open>
  A manager whose collaborators answer the same way at every call: the connection
  resolution, the role query, the health probe (by member name), the consensus-info
  row and the global-status rows. Connections are numbered, 0 being the local one.
\<close>

definition fixed_manager ::
  "(error + nat) \<Rightarrow> (error + string) \<Rightarrow> (string \<Rightarrow> bool) \<Rightarrow>
   (error option \<times> string \<times> string) \<Rightarrow> (RowMap list \<times> error option) \<Rightarrow>
   (unit, nat, unit) Manager" where
  "fixed_manager conn roleAnswer healthy info rows =
     \<lparr>DB = 0, CurrentMemberName = ''pod-0'',
      GetLeaderMember = snapshot_leader,
      GetLeaderConn = (\<lambda>c w. (conn, w)),
      GetReplicaRole = (\<lambda>c w. (roleAnswer, w)),
      IsMemberHealthy = (\<lambda>c m w. (healthy (Name m), w)),
      QueryRowScan = (\<lambda>db q w. (info, w)),
      QueryRowsMap = (\<lambda>db q w. (rows, w)),
      Exec = (\<lambda>db q w. (Inr (), w))\<rparr>"

definition pod0 :: Member where
  "pod0 = newMember ''0'' ''pod-0'' []"

definition pod1 :: Member where
  "pod1 = newMember ''1'' ''pod-1'' []"

definition two_pods :: "unit Cluster" where
  "two_pods =
     \<lparr>SysID = ''sys'', Config = None, Leader = Some (newLeader ''7'' pod1),
      Members = [pod0, pod1], FailOver = None, Extra = []\<rparr>"

definition leaderless :: "unit Cluster" where
  "leaderless =
     \<lparr>SysID = ''sys'', Config = None, Leader = None,
      Members = [pod0, pod1], FailOver = None, Extra = []\<rparr>"

definition start :: "(unit, nat) state" where
  "start = ((), [])"

definition store_keys :: Keys where
  "store_keys =
     \<lparr>SysID_key = ''sysid'', TTL = ''ttl'', AcquireTime = ''acquire-time'',
      RenewTime = ''renew-time'', LeaderName = ''leader'', Candidate = ''candidate'',
      ScheduledAt = ''scheduled-at''\<rparr>"

definition failover_record :: "string \<Rightarrow> ObjectMeta" where
  "failover_record scheduledAt =
     \<lparr>ResourceVersion = ''42'',
      Annotations = [(''leader'', ''pod-1''), (''candidate'', ''pod-0''),
                     (''scheduled-at'', scheduledAt)]\<rparr>"

definition empty_store :: ConfigurationStore where
  "empty_store = \<lparr>leaderObservedRecord = None, LeaderObservedTime = 0\<rparr>"

text \<open>Engine answers used in the scenarios.\<close>

definition membership :: string where
  "membership = ''10.0.0.1:13306#1;10.0.0.2:13306#1@1000''"

definition pods_membership :: string where
  "pods_membership = ''pod-0.svc:13306#1;pod-1.svc:13306#1@7''"

definition follower_manager :: "string \<Rightarrow> (unit, nat, unit) Manager" where
  "follower_manager info =
     fixed_manager (Inr 1) (Inr ''Follower'') (\<lambda>n. True) (None, ''1'', info) ([], None)"

definition leader_manager :: "(unit, nat, unit) Manager" where
  "leader_manager =
     fixed_manager (Inr 1) (Inr ''LEADER'') (\<lambda>n. True) (None, ''1'', pods_membership) ([], None)"

definition unreachable_manager :: "(unit, nat, unit) Manager" where
  "unreachable_manager =
     fixed_manager (Inl (External ''no leader'')) (Inl (External ''connection refused''))
       (\<lambda>n. False) (Some (External ''connection refused''), [], [])
       ([], Some (External ''connection refused''))"

definition status_manager :: "RowMap list \<Rightarrow> (unit, nat, unit) Manager" where
  "status_manager rows =
     fixed_manager (Inr 1) (Inr ''Follower'') (\<lambda>n. True) (None, ''1'', pods_membership) (rows, None)"

text \<open>The local query reads its row and then fails when the rows are closed.\<close>

definition closing_manager :: "(unit, nat, unit) Manager" where
  "closing_manager =
     fixed_manager (Inr 1) (Inr ''Follower'') (\<lambda>n. True)
       (Some (External ''close failed''), ''1'', pods_membership) ([], None)"

definition leader_row :: "string \<Rightarrow> RowMap" where
  "leader_row ip = [(''IP_PORT'', ip), (''ROLE'', ''Leader'')]"

definition follower_row :: "string \<Rightarrow> RowMap" where
  "follower_row ip = [(''IP_PORT'', ip), (''ROLE'', ''Follower'')]"

section \<open>Evaluation rules\<close>

lemmas scenario_defs =
  fixed_manager_def follower_manager_def leader_manager_def unreachable_manager_def
  closing_manager_def status_manager_def leader_row_def follower_row_def membership_def pods_membership_def
  two_pods_def leaderless_def start_def pod0_def pod1_def newMember_def newLeader_def
  snapshot_leader_def

lemmas operation_defs =
  perform_def GetClusterInfo_def GetMemberAddrs_def GetAddrWithMemberName_def
  LeaveMemberFromCluster_def IsLeader_def Promote_def IsClusterHealthy_def
  IsClusterInitialized_def IsLeaderMember_def consensus_info_sql_def global_status_sql_def
  Split_def Contains_def HasPrefix_def make_empty_def EqualFold_def toLowerASCII_def
  Leader_role_def Role_def GetString_def index_map_def len_map_def

section \<open>What \<open>Split\<close> computes\<close>

lemma genSplit_nonempty: "genSplit sep cur s \<noteq> []"
  by (induction s arbitrary: cur) auto




lemma genSplit_tokens: "sep \<notin> set cur \<Longrightarrow> \<forall>t\<in>set (genSplit sep cur s). sep \<notin> set t"
proof (induction s arbitrary: cur)
  case Nil
  then show ?case by simp
next
  case (Cons c cs)
  show ?case
  proof (cases "c = sep")
    case True
    with Cons.IH [of "[]"] Cons.prems show ?thesis by simp
  next
    case False
    with Cons.IH [of "cur @ [c]"] Cons.prems show ?thesis by simp
  qed
qed

text \<open>No token holds the separator, and joining the tokens gives the input back.\<close>

lemma Split_tokens: "t \<in> set (Split s sep) \<Longrightarrow> sep \<notin> set t"
  using genSplit_tokens [of sep "[]" s] by (simp add: Split_def)

lemma Join_genSplit: "Join (genSplit sep cur s) sep = cur @ s"
proof (induction s arbitrary: cur)
  case Nil
  show ?case by simp
next
  case (Cons c cs)
  obtain u us where u: "genSplit sep [] cs = u # us"
    using genSplit_nonempty [of sep "[]" cs] by (cases "genSplit sep [] cs") auto
  show ?case
  proof (cases "c = sep")
    case True
    have "Join (cur # u # us) sep = cur @ sep # Join (u # us) sep" by simp
    with True u Cons.IH [of "[]"] show ?thesis by simp
  next
    case False
    with Cons.IH [of "cur @ [c]"] show ?thesis by simp
  qed
qed

lemma Join_Split: "Join (Split s sep) sep = s"
  by (simp add: Split_def Join_genSplit)

section \<open>Member addresses\<close>





section \<open>Leader membership\<close>

text \<open>
  Claim C9. \<open>IsLeaderMember\<close> only compares snapshot data and never returns an error:
  the answer is \<open>(false, nil)\<close> when the member argument is nil or the snapshot yields
  no leader member, and otherwise it is true exactly when the two names are equal. The
  statement holds for every implementation of \<open>GetLeaderMember\<close>.
\<close>

theorem IsLeaderMember_snapshot_comparison:
  "(member = None \<or> GetLeaderMember mgr cluster = None \<longrightarrow>
      IsLeaderMember mgr cluster member = (False, None)) \<and>
   (\<forall>m l. member = Some m \<and> GetLeaderMember mgr cluster = Some l \<longrightarrow>
      IsLeaderMember mgr cluster member = (Name m = Name l, None))"
  by (auto simp: IsLeaderMember_def split: option.splits)

text \<open>
  With the leader read off the snapshot as the spec describes: the leader's own entry
  is recognised, another member is not, and a snapshot without leader or a nil member
  gives false.
\<close>

theorem IsLeaderMember_snapshot_comparison_witness:
  "IsLeaderMember leader_manager (Some two_pods) (Some pod1) = (True, None) \<and>
   IsLeaderMember leader_manager (Some two_pods) (Some pod0) = (False, None) \<and>
   IsLeaderMember leader_manager (Some leaderless) (Some pod1) = (False, None) \<and>
   IsLeaderMember leader_manager (Some two_pods) None = (False, None)"
proof -
  have l: "GetLeaderMember leader_manager (Some two_pods) = Some pod1"
    by (simp add: scenario_defs)
  have n: "GetLeaderMember leader_manager (Some leaderless) = None"
    by (simp add: scenario_defs)
  have names: "Name pod1 = ''pod-1''" "Name pod0 = ''pod-0''"
    by (simp_all add: scenario_defs)
  from IsLeaderMember_snapshot_comparison [of "Some pod1" leader_manager "Some two_pods"] l
  have a: "IsLeaderMember leader_manager (Some two_pods) (Some pod1) = (True, None)"
    by simp
  from IsLeaderMember_snapshot_comparison [of "Some pod0" leader_manager "Some two_pods"] l names
  have b: "IsLeaderMember leader_manager (Some two_pods) (Some pod0) = (False, None)"
    by simp
  from IsLeaderMember_snapshot_comparison [of "Some pod1" leader_manager "Some leaderless"] n
  have c: "IsLeaderMember leader_manager (Some leaderless) (Some pod1) = (False, None)"
    by simp
  from IsLeaderMember_snapshot_comparison [of None leader_manager "Some two_pods"]
  have d: "IsLeaderMember leader_manager (Some two_pods) None = (False, None)"
    by simp
  from a b c d show ?thesis by simp
qed

section \<open>The calls an operation makes\<close>

lemma perform_eq: "perform c f \<sigma> = (fst (f (fst \<sigma>)), (snd (f (fst \<sigma>)), snd \<sigma> @ [c]))"
  by (simp add: perform_def split: prod.splits)

lemma GetClusterInfo_no_exec:
  "filter is_exec (snd (snd (GetClusterInfo mgr cluster \<sigma>))) = filter is_exec (snd \<sigma>)"
  by (simp add: GetClusterInfo_def perform_eq split: option.splits sum.splits prod.splits)

lemma GetAddrWithMemberName_no_exec:
  "filter is_exec (snd (snd (GetAddrWithMemberName mgr cluster memberName \<sigma>))) =
     filter is_exec (snd \<sigma>)"
  using GetClusterInfo_no_exec [of mgr cluster \<sigma>]
  by (auto simp: GetAddrWithMemberName_def GetMemberAddrs_def split: prod.splits)

lemma IsLeader_calls: "snd (snd (IsLeader mgr c \<sigma>)) = snd \<sigma> @ [GetReplicaRoleCall]"
  by (simp add: IsLeader_def perform_eq split: sum.splits)

section \<open>Cluster initialisation\<close>

text \<open>
  Claim C10, as stated, fails where the local query fails after \<open>Scan\<close> has written
  its destinations: the error is only logged, \<open>clusterInfo\<close> is returned as it stands,
  and the result is \<open>(true, nil)\<close>, not \<open>(false, nil)\<close>.
\<close>

theorem IsClusterInitialized_scan_error_after_write:
  "fst (QueryRowScan closing_manager (DB closing_manager) consensus_info_sql (fst start)) =
     (Some (External ''close failed''), ''1'', ''pod-0.svc:13306#1;pod-1.svc:13306#1@7'') \<and>
   fst (IsClusterInitialized closing_manager (Some two_pods) start) = (True, None)"
  by (simp add: scenario_defs operation_defs)

lemma IsClusterInitialized_result:
  "fst (IsClusterInitialized mgr cluster \<sigma>) =
     (snd (snd (fst (QueryRowScan mgr (DB mgr) consensus_info_sql (fst \<sigma>)))) \<noteq> [], None)"
  by (simp add: IsClusterInitialized_def GetClusterInfo_def perform_eq split: prod.splits)

text \<open>
  Claim C10, amended. The error component of \<open>IsClusterInitialized\<close> is nil on every
  path: a failure of the cluster-info query on the local connection is never surfaced
  as an error, and when the failure leaves \<open>clusterInfo\<close> empty the result is
  \<open>(false, nil)\<close>.
\<close>

theorem IsClusterInitialized_nil_error:
  "snd (fst (IsClusterInitialized mgr cluster \<sigma>)) = None \<and>
   (\<forall>e clusterID.
      fst (QueryRowScan mgr (DB mgr) consensus_info_sql (fst \<sigma>)) = (Some e, clusterID, []) \<longrightarrow>
      fst (IsClusterInitialized mgr cluster \<sigma>) = (False, None))"
  by (simp add: IsClusterInitialized_result)

theorem IsClusterInitialized_nil_error_witness:
  "fst (QueryRowScan unreachable_manager (DB unreachable_manager) consensus_info_sql (fst start)) =
     (Some (External ''connection refused''), [], []) \<and>
   fst (IsClusterInitialized unreachable_manager (Some two_pods) start) = (False, None)"
proof -
  have q: "fst (QueryRowScan unreachable_manager (DB unreachable_manager) consensus_info_sql
                  (fst start)) = (Some (External ''connection refused''), [], [])"
    by (simp add: scenario_defs)
  with IsClusterInitialized_nil_error [of unreachable_manager "Some two_pods" start]
  show ?thesis by blast
qed

section \<open>Promotion\<close>

text \<open>
  Claim C6. When \<open>IsLeader\<close> on the node's own connection answers true, \<open>Promote\<close>
  returns nil and the role query is the only call it makes: no leader connection is
  resolved, no address is looked up and no statement is executed.
\<close>

theorem Promote_already_leader:
  assumes "fst (IsLeader mgr None \<sigma>) = (True, None)"
  shows "Promote mgr cluster \<sigma> = (None, snd (IsLeader mgr None \<sigma>)) \<and>
         snd (snd (Promote mgr cluster \<sigma>)) = snd \<sigma> @ [GetReplicaRoleCall]"
proof -
  obtain isLeader ignored \<sigma>0 where r: "IsLeader mgr None \<sigma> = ((isLeader, ignored), \<sigma>0)"
    by (metis prod.exhaust)
  with assms have "isLeader" by simp
  with r have "Promote mgr cluster \<sigma> = (None, \<sigma>0)"
    by (simp add: Promote_def)
  with r IsLeader_calls [of mgr None \<sigma>] show ?thesis by simp
qed

theorem Promote_already_leader_witness:
  "fst (IsLeader leader_manager None start) = (True, None) \<and>
   Promote leader_manager (Some two_pods) start = (None, ((), [GetReplicaRoleCall]))"
proof -
  have l: "fst (IsLeader leader_manager None start) = (True, None)"
    by (simp add: scenario_defs operation_defs)
  have s: "snd (IsLeader leader_manager None start) = ((), [GetReplicaRoleCall])"
    by (simp add: scenario_defs operation_defs)
  from Promote_already_leader [OF l, of "Some two_pods"] l s show ?thesis by simp
qed

section \<open>Removing a member\<close>

text \<open>
  Claim C5, as stated, fails where the leader connection does not resolve: the address
  lookup then yields the empty string (no membership can be read), yet
  \<open>LeaveMemberFromCluster\<close> returns the connection error, since it resolves the
  connection before it looks the address up.
\<close>

theorem LeaveMemberFromCluster_no_leader_conn:
  "fst (GetAddrWithMemberName unreachable_manager (Some two_pods) ''pod-2'' start) = [] \<and>
   fst (LeaveMemberFromCluster unreachable_manager (Some two_pods) ''pod-2'' start) =
     Some (External ''no leader'')"
  by (simp add: scenario_defs operation_defs)

text \<open>
  Claim C5, amended. When the leader connection resolves and the address lookup that
  follows yields the empty string, \<open>LeaveMemberFromCluster\<close> returns nil and executes no
  statement; a second call for which the same holds returns nil again, and still no
  statement has been executed.
\<close>

theorem LeaveMemberFromCluster_absent_member:
  assumes conn: "perform GetLeaderConnCall (GetLeaderConn mgr cluster) \<sigma> = (Inr db, \<sigma>1)"
      and absent: "GetAddrWithMemberName mgr cluster memberName \<sigma>1 = ([], \<sigma>2)"
  shows "LeaveMemberFromCluster mgr cluster memberName \<sigma> = (None, \<sigma>2) \<and>
         filter is_exec (snd \<sigma>2) = filter is_exec (snd \<sigma>) \<and>
         (\<forall>db' \<sigma>3 \<sigma>4.
            perform GetLeaderConnCall (GetLeaderConn mgr cluster) \<sigma>2 = (Inr db', \<sigma>3) \<and>
            GetAddrWithMemberName mgr cluster memberName \<sigma>3 = ([], \<sigma>4) \<longrightarrow>
            LeaveMemberFromCluster mgr cluster memberName \<sigma>2 = (None, \<sigma>4) \<and>
            filter is_exec (snd \<sigma>4) = filter is_exec (snd \<sigma>))"
proof -
  have once: "LeaveMemberFromCluster mgr cluster memberName s = (None, s2) \<and>
              filter is_exec (snd s2) = filter is_exec (snd s)"
    if c: "perform GetLeaderConnCall (GetLeaderConn mgr cluster) s = (Inr d, s1)"
      and a: "GetAddrWithMemberName mgr cluster memberName s1 = ([], s2)"
    for s s1 s2 d
  proof -
    have "filter is_exec (snd s1) = filter is_exec (snd s)"
      using c by (auto simp: perform_eq)
    moreover have "filter is_exec (snd s2) = filter is_exec (snd s1)"
      using GetAddrWithMemberName_no_exec [of mgr cluster memberName s1] a by simp
    ultimately show ?thesis
      using c a by (simp add: LeaveMemberFromCluster_def)
  qed
  from once [OF conn absent]
  have first: "LeaveMemberFromCluster mgr cluster memberName \<sigma> = (None, \<sigma>2)"
    and quiet: "filter is_exec (snd \<sigma>2) = filter is_exec (snd \<sigma>)"
    by simp_all
  have "LeaveMemberFromCluster mgr cluster memberName \<sigma>2 = (None, \<sigma>4) \<and>
        filter is_exec (snd \<sigma>4) = filter is_exec (snd \<sigma>)"
    if "perform GetLeaderConnCall (GetLeaderConn mgr cluster) \<sigma>2 = (Inr db', \<sigma>3) \<and>
        GetAddrWithMemberName mgr cluster memberName \<sigma>3 = ([], \<sigma>4)"
    for db' \<sigma>3 \<sigma>4
    using once [of \<sigma>2 db' \<sigma>3 \<sigma>4] that quiet by simp
  with first quiet show ?thesis by blast
qed

text \<open>
  The engine lists \<open>pod-0\<close> and \<open>pod-1\<close>; \<open>pod-2\<close> is removed twice. Each call resolves
  the leader connection (twice: once itself, once inside the lookup) and reads the
  membership; neither executes a statement.
\<close>

theorem LeaveMemberFromCluster_absent_member_witness:
  "LeaveMemberFromCluster (follower_manager pods_membership) (Some two_pods) ''pod-2'' start =
     (None, ((), [GetLeaderConnCall, GetLeaderConnCall, QueryRowCall 1 consensus_info_sql])) \<and>
   LeaveMemberFromCluster (follower_manager pods_membership) (Some two_pods) ''pod-2''
       ((), [GetLeaderConnCall, GetLeaderConnCall, QueryRowCall 1 consensus_info_sql]) =
     (None, ((), [GetLeaderConnCall, GetLeaderConnCall, QueryRowCall 1 consensus_info_sql,
                  GetLeaderConnCall, GetLeaderConnCall, QueryRowCall 1 consensus_info_sql])) \<and>
   filter is_exec [GetLeaderConnCall, GetLeaderConnCall, QueryRowCall (1::nat) consensus_info_sql,
                   GetLeaderConnCall, GetLeaderConnCall, QueryRowCall 1 consensus_info_sql] = []"
proof -
  let ?mgr = "follower_manager pods_membership"
  let ?t = "[GetLeaderConnCall, GetLeaderConnCall, QueryRowCall (1::nat) consensus_info_sql]"
  have c1: "perform GetLeaderConnCall (GetLeaderConn ?mgr (Some two_pods)) start =
              (Inr 1, ((), [GetLeaderConnCall]))"
    by (simp add: scenario_defs perform_def)
  have a1: "GetAddrWithMemberName ?mgr (Some two_pods) ''pod-2'' ((), [GetLeaderConnCall]) =
              ([], ((), ?t))"
    by (simp add: scenario_defs operation_defs)
  have c2: "perform GetLeaderConnCall (GetLeaderConn ?mgr (Some two_pods)) ((), ?t) =
              (Inr 1, ((), ?t @ [GetLeaderConnCall]))"
    by (simp add: scenario_defs perform_def)
  have a2: "GetAddrWithMemberName ?mgr (Some two_pods) ''pod-2'' ((), ?t @ [GetLeaderConnCall]) =
              ([], ((), ?t @ ?t))"
    by (simp add: scenario_defs operation_defs)
  from LeaveMemberFromCluster_absent_member [OF c1 a1] c2 a2
  have "LeaveMemberFromCluster ?mgr (Some two_pods) ''pod-2'' start = (None, ((), ?t))"
    and "LeaveMemberFromCluster ?mgr (Some two_pods) ''pod-2'' ((), ?t) = (None, ((), ?t @ ?t))"
    by blast+
  then show ?thesis by simp
qed

section \<open>Cluster health\<close>

lemma leader_row_nonempty: "GetString r Role = Leader_role \<Longrightarrow> 0 < len_map r"
  by (cases r) (auto simp: GetString_def index_map_def Leader_role_def len_map_def)

lemma scan_rows_len:
  "0 < len_map (scan_rows acc rows) \<longleftrightarrow>
     (\<exists>r\<in>set rows. GetString r Role = Leader_role) \<or>
     ((\<forall>r\<in>set rows. GetString r Role \<noteq> Leader_role) \<and> 0 < len_map acc)"
  by (induction rows arbitrary: acc) (auto simp: leader_row_nonempty)

lemma scan_rows_nil:
  "0 < len_map (scan_rows [] rows) \<longleftrightarrow> (\<exists>r\<in>set rows. GetString r Role = Leader_role)"
  using scan_rows_len [of "[]" rows] by (auto simp: len_map_def)

text \<open>
  Claim C2, as stated, fails on a status view with two leader rows: the callback keeps
  the last leader row it sees and the verdict only asks whether one was kept, so the
  cluster is reported healthy although it is not the case that exactly one row reports
  the leader role.
\<close>

theorem IsClusterHealthy_two_leader_rows:
  "fst (IsClusterHealthy (status_manager [leader_row ''10.0.0.1:13306'', leader_row ''10.0.0.2:13306''])
          (Some two_pods) start) \<and>
   length (filter (\<lambda>r. GetString r Role = Leader_role)
             [leader_row ''10.0.0.1:13306'', leader_row ''10.0.0.2:13306'']) = 2"
  by (simp add: scenario_defs operation_defs)

text \<open>
  Claim C2, amended. \<open>IsClusterHealthy\<close> returns true if and only if the leader
  connection resolves, the global-status query ends without error and at least one of
  its rows reports the leader role; when the resolution or the query fails it returns
  false, and it has no error result.
\<close>

theorem IsClusterHealthy_iff_some_leader_row:
  "fst (IsClusterHealthy mgr cluster \<sigma>) =
     (case fst (GetLeaderConn mgr cluster (fst \<sigma>)) of
        Inl e \<Rightarrow> False
      | Inr db \<Rightarrow>
          (case fst (QueryRowsMap mgr db global_status_sql
                       (snd (GetLeaderConn mgr cluster (fst \<sigma>)))) of
             (rows, Some e) \<Rightarrow> False
           | (rows, None) \<Rightarrow> (\<exists>r\<in>set rows. GetString r Role = Leader_role)))"
  by (simp add: IsClusterHealthy_def perform_eq scan_rows_nil
      split: sum.splits prod.splits option.splits)

theorem IsClusterHealthy_iff_some_leader_row_witness:
  "fst (IsClusterHealthy (status_manager [leader_row ''10.0.0.1:13306'', follower_row ''10.0.0.2:13306''])
          (Some two_pods) start) \<and>
   \<not> fst (IsClusterHealthy (status_manager [follower_row ''10.0.0.1:13306'', follower_row ''10.0.0.2:13306''])
          (Some two_pods) start) \<and>
   \<not> fst (IsClusterHealthy unreachable_manager (Some two_pods) start)"
proof -
  have rows: "GetString (leader_row ''10.0.0.1:13306'') Role = Leader_role"
    "GetString (follower_row ''10.0.0.1:13306'') Role \<noteq> Leader_role"
    "GetString (follower_row ''10.0.0.2:13306'') Role \<noteq> Leader_role"
    by (simp_all add: scenario_defs operation_defs)
  have a: "fst (IsClusterHealthy (status_manager [leader_row ''10.0.0.1:13306'', follower_row ''10.0.0.2:13306''])
                  (Some two_pods) start)"
    using rows
    by (simp add: IsClusterHealthy_iff_some_leader_row status_manager_def fixed_manager_def)
  have b: "\<not> fst (IsClusterHealthy (status_manager [follower_row ''10.0.0.1:13306'', follower_row ''10.0.0.2:13306''])
                  (Some two_pods) start)"
    using rows
    by (simp add: IsClusterHealthy_iff_some_leader_row status_manager_def fixed_manager_def)
  have c: "\<not> fst (IsClusterHealthy unreachable_manager (Some two_pods) start)"
    by (simp add: IsClusterHealthy_iff_some_leader_row unreachable_manager_def fixed_manager_def)
  from a b c show ?thesis by simp
qed

section \<open>Materialising the snapshot\<close>

lemma loadClusterFromKubernetes_no_pods:
  "\<exists>c. fst (loadClusterFromKubernetes K getClusterConfigFromConfigMap getMemberFromPod now cs
               config failoverConfig [] clusterObj extra) = Inr c \<and> Members c = []"
  by (simp add: loadClusterFromKubernetes_def decode_failover_def make_empty_def Let_def)

text \<open>
  Claim C4 does not hold of the code: both construction loops write \<open>dst[i]\<close> into a
  slice made with length 0, so the first listed record already takes the out-of-bounds
  branch. For every non-empty list of pods \<open>loadClusterFromKubernetes\<close> ends in the
  panic instead of returning a snapshot, and so does the copy loop of
  \<open>GetClusterFromKubernetes\<close>; only the empty list passes.
\<close>

theorem loadClusterFromKubernetes_panics_on_pods:
  "fst (loadClusterFromKubernetes K getClusterConfigFromConfigMap getMemberFromPod now cs
          config failoverConfig (pod # pods) clusterObj extra) = Inl (IndexOutOfRange 0 0) \<and>
   collect_pods (pod # pods) = Inl (IndexOutOfRange 0 0)"
  by (simp add: loadClusterFromKubernetes_def collect_pods_def make_empty_def
      assign_index_def Let_def)

lemma loadClusterFromKubernetes_FailOver:
  "fst (loadClusterFromKubernetes K getClusterConfigFromConfigMap getMemberFromPod now cs
          config failoverConfig pods clusterObj extra) = Inr c \<Longrightarrow> FailOver c = None"
  by (auto simp: loadClusterFromKubernetes_def decode_failover_def Let_def split: sum.splits)

text \<open>
  Claim C3 does not hold of the code: the decoding block is guarded by the local
  variable \<open>failover\<close>, which is still nil there, and not by the record
  \<open>failoverConfig\<close>. With a failover record present whose \<open>scheduledAt\<close> parses (and no
  pods, so that the call returns), the snapshot carries no failover.
\<close>

theorem loadClusterFromKubernetes_drops_failover:
  "Atoi (index_map (Annotations (failover_record ''1700000100'')) (ScheduledAt store_keys)) =
     Some 1700000100 \<and>
   fst (loadClusterFromKubernetes store_keys (\<lambda>c. ()) (\<lambda>pod. pod) 1700000000 empty_store
          None (Some (failover_record ''1700000100'')) [] None []) =
     Inr \<lparr>SysID = [], Config = None, Leader = None, Members = [], FailOver = None, Extra = []\<rparr>"
  by (simp add: loadClusterFromKubernetes_def decode_failover_def make_empty_def Atoi_def
      digit_def index_map_def failover_record_def store_keys_def Let_def)

section \<open>Healthy members other than the leader\<close>

lemma range_members_PerLoop:
  "range_members mgr c l PerLoop 0 ms members [x] \<sigma> = ((members', store'), \<sigma>') \<Longrightarrow>
   set members \<subseteq> {0} \<Longrightarrow> set members' \<subseteq> {0} \<and> store' = [last (x # ms)]"
proof (induction ms arbitrary: members x \<sigma>)
  case Nil
  then show ?case by auto
next
  case (Cons m ms)
  show ?case
  proof (cases "Name m = l")
    case True
    with Cons.prems
    have "range_members mgr c l PerLoop 0 ms members [m] \<sigma> = ((members', store'), \<sigma>')"
      by simp
    from Cons.IH [OF this Cons.prems(2)] show ?thesis by simp
  next
    case False
    obtain healthy \<sigma>1 where
      p: "perform (IsMemberHealthyCall (Name m)) (IsMemberHealthy mgr (Some c) m) \<sigma> =
            (healthy, \<sigma>1)"
      by (cases "perform (IsMemberHealthyCall (Name m)) (IsMemberHealthy mgr (Some c) m) \<sigma>")
    show ?thesis
    proof (cases healthy)
      case True
      with Cons.prems(1) False p
      have r: "range_members mgr c l PerLoop 0 ms (members @ [0]) [m] \<sigma>1 =
                 ((members', store'), \<sigma>')"
        by simp
      from Cons.prems(2) have "set (members @ [0]) \<subseteq> {0}" by simp
      from Cons.IH [OF r this] show ?thesis by simp
    next
      case unhealthy: False
      with Cons.prems(1) False p
      have r: "range_members mgr c l PerLoop 0 ms members [m] \<sigma>1 = ((members', store'), \<sigma>')"
        by simp
      from Cons.IH [OF r Cons.prems(2)] show ?thesis by simp
    qed
  qed
qed

text \<open>
  With one variable for the whole loop, every pointer returned designates the last
  entry of the roster, whichever entries passed the two checks.
\<close>

lemma HasOtherHealthyMembers_PerLoop:
  assumes "Members cluster \<noteq> []"
  shows "\<forall>m\<in>set (pointees (fst (HasOtherHealthyMembers mgr PerLoop cluster leaderName \<sigma>))).
           m = last (Members cluster)"
proof -
  obtain members' store' \<sigma>' where
    r: "range_members mgr cluster leaderName PerLoop 0 (Members cluster) [] [zero_Member] \<sigma> =
          ((members', store'), \<sigma>')"
    by (metis prod.exhaust)
  from range_members_PerLoop [OF r] assms
  have "set members' \<subseteq> {0}" and "store' = [last (Members cluster)]" by auto
  with r show ?thesis by (auto simp: HasOtherHealthyMembers_def pointees_def)
qed

lemma range_members_PerIteration:
  "range_members mgr c l PerIteration a ms members store \<sigma> = ((members', store'), \<sigma>') \<Longrightarrow>
   store' = store @ ms \<and>
   (\<exists>new. members' = members @ new \<and>
      (\<forall>b\<in>set new. length store \<le> b \<and> b < length store' \<and> Name (store' ! b) \<noteq> l \<and>
          (\<exists>w. fst (IsMemberHealthy mgr (Some c) (store' ! b) w))))"
proof (induction ms arbitrary: a members store \<sigma>)
  case Nil
  then show ?case by auto
next
  case (Cons m ms)
  let ?s = "store @ [m]"
  show ?case
  proof (cases "Name m = l")
    case True
    with Cons.prems
    have r: "range_members mgr c l PerIteration (length store) ms members ?s \<sigma> =
               ((members', store'), \<sigma>')"
      by simp
    from Cons.IH [OF r] obtain new where
      s: "store' = ?s @ ms" and n: "members' = members @ new" and
      b: "\<forall>b\<in>set new. length ?s \<le> b \<and> b < length store' \<and> Name (store' ! b) \<noteq> l \<and>
            (\<exists>w. fst (IsMemberHealthy mgr (Some c) (store' ! b) w))"
      by auto
    from b have "\<forall>b\<in>set new. length store \<le> b \<and> b < length store' \<and> Name (store' ! b) \<noteq> l \<and>
            (\<exists>w. fst (IsMemberHealthy mgr (Some c) (store' ! b) w))"
      by (simp add: Suc_leD)
    with s n show ?thesis by (intro conjI exI [of _ new]) simp_all
  next
    case False
    obtain healthy \<sigma>1 where
      p: "perform (IsMemberHealthyCall (Name m)) (IsMemberHealthy mgr (Some c) m) \<sigma> =
            (healthy, \<sigma>1)"
      by (cases "perform (IsMemberHealthyCall (Name m)) (IsMemberHealthy mgr (Some c) m) \<sigma>")
    show ?thesis
    proof (cases healthy)
      case unhealthy: False
      with Cons.prems False p
      have r: "range_members mgr c l PerIteration (length store) ms members ?s \<sigma>1 =
                 ((members', store'), \<sigma>')"
        by simp
      from Cons.IH [OF r] obtain new where
        s: "store' = ?s @ ms" and n: "members' = members @ new" and
        b: "\<forall>b\<in>set new. length ?s \<le> b \<and> b < length store' \<and> Name (store' ! b) \<noteq> l \<and>
              (\<exists>w. fst (IsMemberHealthy mgr (Some c) (store' ! b) w))"
        by auto
      from b have "\<forall>b\<in>set new. length store \<le> b \<and> b < length store' \<and> Name (store' ! b) \<noteq> l \<and>
              (\<exists>w. fst (IsMemberHealthy mgr (Some c) (store' ! b) w))"
        by (simp add: Suc_leD)
      with s n show ?thesis by (intro conjI exI [of _ new]) simp_all
    next
      case True
      with p have h: "fst (IsMemberHealthy mgr (Some c) m (fst \<sigma>))"
        by (auto simp: perform_def split: prod.splits)
      from True Cons.prems False p
      have r: "range_members mgr c l PerIteration (length store) ms (members @ [length store]) ?s \<sigma>1 =
                 ((members', store'), \<sigma>')"
        by simp
      from Cons.IH [OF r] obtain new where
        s: "store' = ?s @ ms" and n: "members' = (members @ [length store]) @ new" and
        b: "\<forall>b\<in>set new. length ?s \<le> b \<and> b < length store' \<and> Name (store' ! b) \<noteq> l \<and>
              (\<exists>w. fst (IsMemberHealthy mgr (Some c) (store' ! b) w))"
        by auto
      have here: "store' ! length store = m" using s by (simp add: nth_append)
      have "\<forall>b\<in>set (length store # new).
              length store \<le> b \<and> b < length store' \<and> Name (store' ! b) \<noteq> l \<and>
              (\<exists>w. fst (IsMemberHealthy mgr (Some c) (store' ! b) w))"
        using b here False h s by (auto simp: Suc_leD)
      with s n show ?thesis by (intro conjI exI [of _ "length store # new"]) simp_all
    qed
  qed
qed

text \<open>
  With a variable per iteration, every member returned is an entry of the roster other
  than the named leader, and the health probe answered true for it.
\<close>

lemma HasOtherHealthyMembers_PerIteration:
  "\<forall>m\<in>set (pointees (fst (HasOtherHealthyMembers mgr PerIteration cluster leaderName \<sigma>))).
     m \<in> set (Members cluster) \<and> Name m \<noteq> leaderName \<and>
     (\<exists>w. fst (IsMemberHealthy mgr (Some cluster) m w))"
proof -
  obtain members' store' \<sigma>' where
    r: "range_members mgr cluster leaderName PerIteration 0 (Members cluster) [] [] \<sigma> =
          ((members', store'), \<sigma>')"
    by (metis prod.exhaust)
  from range_members_PerIteration [OF r]
  have s: "store' = Members cluster" and
    b: "\<forall>b\<in>set members'. b < length store' \<and> Name (store' ! b) \<noteq> leaderName \<and>
              (\<exists>w. fst (IsMemberHealthy mgr (Some cluster) (store' ! b) w))"
    by auto
  with r show ?thesis by (auto simp: HasOtherHealthyMembers_def pointees_def)
qed

text \<open>
  Claim C8 does not hold of the code under the loop-variable rule of Go up to 1.21: on
  the roster \<open>pod-0\<close>, \<open>pod-1\<close> with leader \<open>pod-1\<close> and every probe answering true, the
  pointer appended for \<open>pod-0\<close> designates the loop variable, which holds \<open>pod-1\<close> when
  the loop ends. The one member returned is the excluded leader.
\<close>

theorem HasOtherHealthyMembers_returns_leader:
  "pointees (fst (HasOtherHealthyMembers (follower_manager pods_membership) PerLoop
                    two_pods ''pod-1'' start)) = [pod1] \<and>
   Name pod1 = ''pod-1''"
  by (simp add: HasOtherHealthyMembers_def pointees_def scenario_defs perform_def)

end
